theory Spec2Isabelle
  imports Main "HOL-Library.Word"
begin

section \<open>Data model\<close>

text \<open>
  Go's \<open>int\<close> and \<open>uint\<close> on a 64-bit target are 64-bit words: \<open>+\<close> and unary
  \<open>-\<close> wrap around, and the comparisons of \<open>int\<close> are the signed ones
  (\<open><s\<close>, \<open><=s\<close>). Timestamps are abstract clock readings.
\<close>

type_synonym go_int = "64 word"
type_synonym go_uint = "64 word"
type_synonym time = nat

text \<open>
  \<open>errs.XError\<close>: an error type, a message and the wrapped cause. The constructor
  \<open>NOT_FOUND\<close> is the name the specification's taxonomy uses; the service and the
  repositories below only ever build \<open>INVALID_REQUEST\<close> and \<open>DATABASE\<close> errors.
  \<open>ErrRecordNotFound\<close> and \<open>ErrStorage\<close> are the errors of the storage layer
  (\<open>res.Error\<close>), \<open>ErrValidation\<close> the error of request binding.
\<close>

datatype ErrorType = INVALID_REQUEST | DATABASE | MAPPING_ERROR | NOT_FOUND

datatype error =
    ErrRecordNotFound
  | ErrStorage
  | ErrValidation
  | XError ErrorType string "error option"

text \<open>\<open>entities.InventoryLogChangeType\<close> is a string type with three named constants.\<close>

type_synonym InventoryLogChangeType = string

definition InventoryLogChangeTypeIN :: InventoryLogChangeType where
  "InventoryLogChangeTypeIN = ''IN''"

definition InventoryLogChangeTypeOUT :: InventoryLogChangeType where
  "InventoryLogChangeTypeOUT = ''OUT''"

definition InventoryLogChangeTypeADJUST :: InventoryLogChangeType where
  "InventoryLogChangeTypeADJUST = ''ADJUST''"

text \<open>
  \<open>entities.Inventory\<close> (table \<open>Inventories\<close>): the embedded \<open>Model\<close> contributes the
  primary key, the update timestamp, the active flag and the channel reference.
\<close>

record Inventory =
  inv_ID :: go_uint
  inv_UpdatedAt :: time
  inv_IsActive :: bool
  inv_ChannelId :: go_uint
  inv_ProductId :: go_uint
  inv_Quantity :: go_int
  inv_LowStockThreshold :: go_int

text \<open>\<open>entities.InventoryLog\<close> (table \<open>InventoryLogs\<close>).\<close>

record InventoryLog =
  log_IsActive :: bool
  log_ProductId :: go_uint
  log_ChangeType :: InventoryLogChangeType
  log_Quantity :: go_int
  log_Reason :: string
  log_Notes :: string
  log_LoggedAt :: time

text \<open>\<open>requestModel.StockMovementRequest\<close>, \<open>requestModel.Inventory\<close> and
  \<open>responseModel.StockMovementResponse\<close>.\<close>

record StockMovementRequest =
  req_ProductId :: go_uint
  req_ChangeType :: string
  req_Quantity :: go_int
  req_Reason :: string
  req_Notes :: string
  req_AdminOverride :: bool


record StockMovementResponse =
  Success :: bool
  Message :: string
  ProductId :: go_uint
  PreviousStock :: go_int
  NewStock :: go_int
  ChangeAmount :: go_int

text \<open>
  \<open>CalculateNetChange\<close>: the signed effect of a ledger row on the quantity. The
  \<open>switch\<close> on the change type has a \<open>default\<close> branch returning 0.
\<close>

definition CalculateNetChange :: "InventoryLog \<Rightarrow> go_int" where
  "CalculateNetChange il =
     (if log_ChangeType il = InventoryLogChangeTypeIN then log_Quantity il
      else if log_ChangeType il = InventoryLogChangeTypeOUT then - log_Quantity il
      else if log_ChangeType il = InventoryLogChangeTypeADJUST then log_Quantity il
      else 0)"

section \<open>Storage\<close>

text \<open>
  The two tables, rows in primary-key order, together with the statements the
  repositories have issued so far. \<open>statements\<close> records every storage access, reads
  included, so that "no storage access" is a property of the state.
\<close>

datatype Statement =
    SelectInventoryById go_uint
  | SelectInventoryByProductId go_uint
  | InsertInventoryLog InventoryLog
  | UpdateInventoryQuantity go_uint go_int
  | UpdateInventoryThreshold go_uint go_int

record DB =
  Inventories :: "Inventory list"
  InventoryLogs :: "InventoryLog list"
  statements :: "Statement list"

text \<open>
  Whether the storage layer rejects a statement (connection loss, constraint violation,
  value out of the column's range) is not decided by the program: it is the parameter
  \<open>rejects\<close> of every repository operation.
\<close>

type_synonym Storage = "Statement \<Rightarrow> bool"

definition issue :: "Statement \<Rightarrow> DB \<Rightarrow> DB" where
  "issue s db = db\<lparr>statements := statements db @ [s]\<rparr>"



text \<open>
  \<open>inventoryRepository.GetByProductId\<close>: \<open>First(&inventory)\<close> takes the first row in
  primary-key order and reports \<open>ErrRecordNotFound\<close> when there is none.
\<close>

definition GetByProductId ::
  "Storage \<Rightarrow> DB \<Rightarrow> go_uint \<Rightarrow> (error + Inventory) \<times> DB" where
  "GetByProductId rejects db productId =
     (let q = SelectInventoryByProductId productId; db' = issue q db in
      if rejects q
      then (Inl (XError DATABASE ''Unable to find inventory for product'' (Some ErrStorage)), db')
      else case find (\<lambda>i. inv_ProductId i = productId) (Inventories db) of
             None \<Rightarrow> (Inl (XError DATABASE ''Unable to find inventory for product''
                             (Some ErrRecordNotFound)), db')
           | Some i \<Rightarrow> (Inr i, db'))"

text \<open>
  \<open>inventoryRepository.UpdateQuantity\<close>: sets \<open>quantity\<close> and \<open>updated_at\<close> on every
  row of the product; matching no row is not an error.
\<close>

definition UpdateQuantity ::
  "Storage \<Rightarrow> time \<Rightarrow> DB \<Rightarrow> go_uint \<Rightarrow> go_int \<Rightarrow> error option \<times> DB" where
  "UpdateQuantity rejects now db productId newQuantity =
     (let q = UpdateInventoryQuantity productId newQuantity; db' = issue q db in
      if rejects q
      then (Some (XError DATABASE ''Unable to update inventory quantity'' (Some ErrStorage)), db')
      else (None, db'\<lparr>Inventories :=
              map (\<lambda>i. if inv_ProductId i = productId
                        then i\<lparr>inv_Quantity := newQuantity, inv_UpdatedAt := now\<rparr> else i)
                  (Inventories db)\<rparr>))"


text \<open>\<open>inventoryLogRepository.Create\<close>: appends one row to the ledger.\<close>

definition inventoryLogRepository_Create ::
  "Storage \<Rightarrow> DB \<Rightarrow> InventoryLog \<Rightarrow> error option \<times> DB" where
  "inventoryLogRepository_Create rejects db entry =
     (let q = InsertInventoryLog entry; db' = issue q db in
      if rejects q
      then (Some (XError DATABASE ''Unable to create inventory log'' (Some ErrStorage)), db')
      else (None, db'\<lparr>InventoryLogs := InventoryLogs db @ [entry]\<rparr>))"

section \<open>Formatting\<close>

text \<open>\<open>fmt.Sprintf\<close> with the verb \<open>%d\<close>: the decimal digits, with a leading minus
  sign for a negative value.\<close>

fun digits :: "nat \<Rightarrow> string" where
  "digits n = (if n < 10 then [''0123456789'' ! n]
               else digits (n div 10) @ [''0123456789'' ! (n mod 10)])"

declare digits.simps [simp del]

definition Sprintf_d :: "go_int \<Rightarrow> string" where
  "Sprintf_d x = (if x <s 0 then ''-'' @ digits (nat (- sint x)) else digits (nat (sint x)))"

section \<open>The inventory service\<close>

text \<open>
  The \<open>switch\<close> of \<open>RecordStockMovement\<close> on the change type: the new stock and the
  net change, or the early return of the \<open>OUT\<close> branch.
\<close>

definition stockChange ::
  "InventoryLogChangeType \<Rightarrow> StockMovementRequest \<Rightarrow> go_int \<Rightarrow> error + (go_int \<times> go_int)" where
  "stockChange changeType request previousStock =
     (if changeType = InventoryLogChangeTypeIN
      then Inr (previousStock + req_Quantity request, req_Quantity request)
      else if changeType = InventoryLogChangeTypeOUT
      then (let netChange = - req_Quantity request;
                newStock = previousStock + netChange in
            if newStock <s 0 \<and> \<not> req_AdminOverride request
            then Inl (XError INVALID_REQUEST
                   (''Insufficient stock. Available: '' @ Sprintf_d previousStock
                      @ '', Requested: '' @ Sprintf_d (req_Quantity request)) None)
            else Inr (newStock, netChange))
      else if changeType = InventoryLogChangeTypeADJUST
      then (let netChange = (if 0 <s req_Quantity request then req_Quantity request
                             else - req_Quantity request) in
            Inr (previousStock + netChange, netChange))
      else Inr (0, 0))"

text \<open>
  \<open>inventoryService.RecordStockMovement\<close>. \<open>now\<close> is the reading of the clock used for
  \<open>LoggedAt\<close> and \<open>updated_at\<close>. The result is the returned pair (error or response)
  and the storage state the call leaves behind.
\<close>

definition RecordStockMovement ::
  "Storage \<Rightarrow> time \<Rightarrow> DB \<Rightarrow> StockMovementRequest \<Rightarrow> (error + StockMovementResponse) \<times> DB" where
  "RecordStockMovement rejects now db request =
     (if req_Quantity request <=s 0
      then (Inl (XError INVALID_REQUEST ''Quantity must be greater than 0'' None), db)
      else
       let changeType = req_ChangeType request in
       if changeType \<noteq> InventoryLogChangeTypeIN \<and>
          changeType \<noteq> InventoryLogChangeTypeOUT \<and>
          changeType \<noteq> InventoryLogChangeTypeADJUST
       then (Inl (XError INVALID_REQUEST ''Invalid change type. Must be IN, OUT, or ADJUST'' None), db)
       else
        (case GetByProductId rejects db (req_ProductId request) of
          (Inl err, db1) \<Rightarrow>
            (Inl (XError INVALID_REQUEST ''Product inventory not found'' (Some err)), db1)
        | (Inr inventory, db1) \<Rightarrow>
            (let previousStock = inv_Quantity inventory in
             (case stockChange changeType request previousStock of
                Inl e \<Rightarrow> (Inl e, db1)
              | Inr (newStock, netChange) \<Rightarrow>
                 (let logEntry = \<lparr>log_IsActive = True,
                                  log_ProductId = req_ProductId request,
                                  log_ChangeType = changeType,
                                  log_Quantity = req_Quantity request,
                                  log_Reason = req_Reason request,
                                  log_Notes = req_Notes request,
                                  log_LoggedAt = now\<rparr> in
                  (case inventoryLogRepository_Create rejects db1 logEntry of
                     (Some errr, db2) \<Rightarrow>
                       (Inl (XError DATABASE ''Failed to create inventory log'' (Some errr)), db2)
                   | (None, db2) \<Rightarrow>
                      (case UpdateQuantity rejects now db2 (req_ProductId request) newStock of
                         (Some errr, db3) \<Rightarrow>
                           (Inl (XError DATABASE ''Failed to update inventory quantity''
                                  (Some errr)), db3)
                       | (None, db3) \<Rightarrow>
                           (Inr \<lparr>Success = True,
                                 Message = ''Stock '' @ req_ChangeType request
                                             @ '' recorded successfully'',
                                 ProductId = req_ProductId request,
                                 PreviousStock = previousStock,
                                 NewStock = newStock,
                                 ChangeAmount = netChange\<rparr>, db3))))))))"


section \<open>The inventory handler\<close>

text \<open>
  \<open>ctx.Bind(&movement)\<close>: the fields of \<open>StockMovementRequest\<close> tagged
  \<open>binding:"required"\<close> (product id, change type, quantity, reason) must differ from
  the zero value of their type; \<open>Notes\<close> and \<open>AdminOverride\<close> carry no such tag.
\<close>

definition Bind :: "StockMovementRequest \<Rightarrow> error option" where
  "Bind movement =
     (if req_ProductId movement = 0 \<or> req_ChangeType movement = [] \<or>
         req_Quantity movement = 0 \<or> req_Reason movement = []
      then Some ErrValidation else None)"

text \<open>
  \<open>InventoryHandler.RecordStockMovement\<close>: the HTTP status and the error or response
  sent. The text of \<open>errs.MALFORMED_REQUEST\<close> is a constant of the error package and
  is taken as the parameter \<open>malformed\<close>.
\<close>

definition InventoryHandler_RecordStockMovement ::
  "string \<Rightarrow> Storage \<Rightarrow> time \<Rightarrow> DB \<Rightarrow> StockMovementRequest
     \<Rightarrow> (nat \<times> (error + StockMovementResponse)) \<times> DB" where
  "InventoryHandler_RecordStockMovement malformed rejects now db movement =
     (case Bind movement of
        Some err \<Rightarrow> ((400, Inl (XError INVALID_REQUEST malformed (Some err))), db)
      | None \<Rightarrow>
          (case RecordStockMovement rejects now db movement of
             (Inl errr, db') \<Rightarrow> ((500, Inl errr), db')
           | (Inr response, db') \<Rightarrow> ((201, Inr response), db')))"

section \<open>Transactions\<close>

text \<open>
  \<open>transactionManager\<close>: the context of a request holds, under \<open>TRANSACTION_KEY\<close>,
  the transaction of the request once one has been created. \<open>WithTransaction\<close> returns
  that transaction and creates it on first use; here it returns the session in which the
  transaction exists. An open transaction has its own view of the tables, which starts as
  the stored state; \<open>Commit\<close> stores the view, \<open>Rollback\<close> drops it.
\<close>

datatype Transaction = Open DB | Finished

record Session =
  stored :: DB
  TRANSACTION_KEY :: "Transaction option"

definition createTransaction :: "Session \<Rightarrow> Session" where
  "createTransaction s = s\<lparr>TRANSACTION_KEY := Some (Open (stored s))\<rparr>"

definition WithTransaction :: "Session \<Rightarrow> Session" where
  "WithTransaction s =
     (case TRANSACTION_KEY s of None \<Rightarrow> createTransaction s | Some transactionObj \<Rightarrow> s)"

definition Commit :: "Session \<Rightarrow> Session" where
  "Commit s =
     (let s' = WithTransaction s in
      case TRANSACTION_KEY s' of
        Some (Open view) \<Rightarrow> s'\<lparr>stored := view, TRANSACTION_KEY := Some Finished\<rparr>
      | _ \<Rightarrow> s')"

definition Rollback :: "Session \<Rightarrow> Session" where
  "Rollback s =
     (let s' = WithTransaction s in
      case TRANSACTION_KEY s' of
        Some (Open view) \<Rightarrow> s'\<lparr>TRANSACTION_KEY := Some Finished\<rparr>
      | _ \<Rightarrow> s')"

text \<open>Modelled from the spec: \<open>GormDAL.WithDB\<close>, through which every repository
  reaches the database, and the code that commits or rolls back the transaction of a
  request. The repositories that call \<open>WithDB\<close> and the transaction manager are modelled
  above from their code. The specification describes an ambient context carrying an open
  transaction, the ledger append and the snapshot update "both within the same atomic
  transaction", and a storage failure as "fatal to the current request (no partial
  commit)". Accordingly every repository call of a request works on the view of the
  transaction of the request's context, which is committed when the service returns a
  response and rolled back when it returns an error.
\<close>

definition RecordStockMovement_in_transaction ::
  "Storage \<Rightarrow> time \<Rightarrow> DB \<Rightarrow> StockMovementRequest \<Rightarrow> (error + StockMovementResponse) \<times> DB" where
  "RecordStockMovement_in_transaction rejects now db request =
     (let s = WithTransaction \<lparr>stored = db, TRANSACTION_KEY = None\<rparr> in
      case TRANSACTION_KEY s of
        Some (Open view) \<Rightarrow>
          (case RecordStockMovement rejects now view request of
             (Inl e, view') \<Rightarrow>
               (Inl e, stored (Rollback (s\<lparr>TRANSACTION_KEY := Some (Open view')\<rparr>)))
           | (Inr response, view') \<Rightarrow>
               (Inr response, stored (Commit (s\<lparr>TRANSACTION_KEY := Some (Open view')\<rparr>))))
      | _ \<Rightarrow> (Inl ErrStorage, db))"

section \<open>Notions used in the statements\<close>

text \<open>The ledger row \<open>RecordStockMovement\<close> builds for a request.\<close>

definition logEntry_of :: "time \<Rightarrow> StockMovementRequest \<Rightarrow> InventoryLog" where
  "logEntry_of now request =
     \<lparr>log_IsActive = True, log_ProductId = req_ProductId request,
      log_ChangeType = req_ChangeType request, log_Quantity = req_Quantity request,
      log_Reason = req_Reason request, log_Notes = req_Notes request, log_LoggedAt = now\<rparr>"

text \<open>The type of the error a call returned, if it returned an \<open>XError\<close>.\<close>

fun error_type :: "error \<Rightarrow> ErrorType option" where
  "error_type (XError t msg cause) = Some t"
| "error_type e = None"


text \<open>Replaying the ledger of a product: the sum of the net changes of its rows, in Go's
  \<open>int\<close> arithmetic.\<close>

definition ledger_sum :: "go_uint \<Rightarrow> InventoryLog list \<Rightarrow> go_int" where
  "ledger_sum productId logs =
     sum_list (map CalculateNetChange (filter (\<lambda>l. log_ProductId l = productId) logs))"

definition ledger_consistent :: "DB \<Rightarrow> bool" where
  "ledger_consistent db \<longleftrightarrow>
     (\<forall>i \<in> set (Inventories db).
        inv_Quantity i = ledger_sum (inv_ProductId i) (InventoryLogs db))"

text \<open>A sequence of calls, each with its own storage behaviour and clock reading, all of
  which return a response; \<open>None\<close> as soon as one returns an error.\<close>

fun RecordStockMovements ::
  "DB \<Rightarrow> (Storage \<times> time \<times> StockMovementRequest) list \<Rightarrow> DB option" where
  "RecordStockMovements db [] = Some db"
| "RecordStockMovements db ((rejects, now, request) # calls) =
     (case RecordStockMovement rejects now db request of
        (Inl e, db') \<Rightarrow> None
      | (Inr resp, db') \<Rightarrow> RecordStockMovements db' calls)"

section \<open>Example states and requests\<close>

text \<open>
  The scenarios of the specification: a storage layer that accepts every statement, a
  database holding the snapshot of product 1 with a given quantity and threshold and an
  empty ledger, and a movement request for product 1.
\<close>

definition accepts_all :: Storage where
  "accepts_all = (\<lambda>q. False)"

definition snapshot_row :: "go_int \<Rightarrow> go_int \<Rightarrow> Inventory" where
  "snapshot_row quantity threshold =
     \<lparr>inv_ID = 1, inv_UpdatedAt = 0, inv_IsActive = True, inv_ChannelId = 1,
      inv_ProductId = 1, inv_Quantity = quantity, inv_LowStockThreshold = threshold\<rparr>"

definition snapshot_db :: "go_int \<Rightarrow> go_int \<Rightarrow> DB" where
  "snapshot_db quantity threshold =
     \<lparr>Inventories = [snapshot_row quantity threshold], InventoryLogs = [], statements = []\<rparr>"

definition stock_movement :: "string \<Rightarrow> go_int \<Rightarrow> string \<Rightarrow> bool \<Rightarrow> StockMovementRequest" where
  "stock_movement changeType quantity reason override =
     \<lparr>req_ProductId = 1, req_ChangeType = changeType, req_Quantity = quantity,
      req_Reason = reason, req_Notes = [], req_AdminOverride = override\<rparr>"

text \<open>The storage of the migration script: \<open>quantity\<close> and
  \<open>low_stock_threshold\<close> are INTEGER columns, which hold 32-bit values only.\<close>

definition fits_int4 :: "go_int \<Rightarrow> bool" where
  "fits_int4 x \<longleftrightarrow> - 2147483648 <=s x \<and> x <=s 2147483647"

definition int4_columns :: Storage where
  "int4_columns =
     (\<lambda>q. case q of
            InsertInventoryLog entry \<Rightarrow> \<not> fits_int4 (log_Quantity entry)
          | UpdateInventoryQuantity productId newQuantity \<Rightarrow> \<not> fits_int4 newQuantity
          | UpdateInventoryThreshold productId threshold \<Rightarrow> \<not> fits_int4 threshold
          | _ \<Rightarrow> False)"


definition rejects_quantity_update :: Storage where
  "rejects_quantity_update =
     (\<lambda>q. case q of UpdateInventoryQuantity productId newQuantity \<Rightarrow> True | _ \<Rightarrow> False)"

definition two_movements :: "(Storage \<times> time \<times> StockMovementRequest) list" where
  "two_movements = [(accepts_all, 1, stock_movement ''IN'' 50 ''purchase'' False),
                    (accepts_all, 2, stock_movement ''OUT'' 20 ''sale'' False)]"


section \<open>Auxiliary facts\<close>

lemmas change_types = InventoryLogChangeTypeIN_def InventoryLogChangeTypeOUT_def
  InventoryLogChangeTypeADJUST_def

lemma find_Some_D: "find P xs = Some x \<Longrightarrow> x \<in> set xs \<and> P x"
  by (induction xs) (auto split: if_splits)

lemma GetByProductId_Inr:
  "GetByProductId rejects db p = (Inr i, db1) \<Longrightarrow>
     find (\<lambda>i. inv_ProductId i = p) (Inventories db) = Some i \<and>
     db1 = issue (SelectInventoryByProductId p) db"
  by (auto simp: GetByProductId_def Let_def split: if_splits option.splits)

lemma Create_None:
  "inventoryLogRepository_Create rejects db e = (None, db2) \<Longrightarrow>
     db2 = (issue (InsertInventoryLog e) db)\<lparr>InventoryLogs := InventoryLogs db @ [e]\<rparr>"
  by (auto simp: inventoryLogRepository_Create_def Let_def split: if_splits)

lemma UpdateQuantity_None:
  "UpdateQuantity rejects now db p n = (None, db3) \<Longrightarrow>
     db3 = (issue (UpdateInventoryQuantity p n) db)\<lparr>Inventories :=
              map (\<lambda>i. if inv_ProductId i = p
                        then i\<lparr>inv_Quantity := n, inv_UpdatedAt := now\<rparr> else i)
                  (Inventories db)\<rparr>"
  by (auto simp: UpdateQuantity_def Let_def split: if_splits)

text \<open>
  What a call that returns a response has done: the request passed both validation
  checks, the snapshot of its product was found, and the tables hold one more ledger row
  and the new quantity on the rows of the product.
\<close>

lemma RecordStockMovement_Inr:
  assumes "RecordStockMovement rejects now db request = (Inr resp, db')"
  shows "\<exists>inventory newStock netChange.
     \<not> req_Quantity request <=s 0 \<and>
     req_ChangeType request \<in> {InventoryLogChangeTypeIN, InventoryLogChangeTypeOUT,
                                 InventoryLogChangeTypeADJUST} \<and>
     find (\<lambda>i. inv_ProductId i = req_ProductId request) (Inventories db) = Some inventory \<and>
     stockChange (req_ChangeType request) request (inv_Quantity inventory) = Inr (newStock, netChange) \<and>
     resp = \<lparr>Success = True,
             Message = ''Stock '' @ req_ChangeType request @ '' recorded successfully'',
             ProductId = req_ProductId request, PreviousStock = inv_Quantity inventory,
             NewStock = newStock, ChangeAmount = netChange\<rparr> \<and>
     Inventories db' = map (\<lambda>i. if inv_ProductId i = req_ProductId request
                        then i\<lparr>inv_Quantity := newStock, inv_UpdatedAt := now\<rparr> else i)
                  (Inventories db) \<and>
     InventoryLogs db' = InventoryLogs db @ [logEntry_of now request]"
  using assms
  apply (simp add: RecordStockMovement_def Let_def logEntry_of_def split: if_splits prod.splits sum.splits option.splits)
  apply (auto dest!: GetByProductId_Inr Create_None UpdateQuantity_None simp: issue_def)
  done

text \<open>
  What a call that returns an error has done: the snapshot rows are as they were, and
  after an INVALID_REQUEST error so is the ledger, with at most the snapshot read issued.
\<close>

lemma RecordStockMovement_Inl:
  assumes "RecordStockMovement rejects now db request = (Inl e, db')"
  shows "Inventories db' = Inventories db"
    and "error_type e = Some INVALID_REQUEST \<Longrightarrow>
           InventoryLogs db' = InventoryLogs db \<and>
           (statements db' = statements db \<or>
            statements db' = statements db @ [SelectInventoryByProductId (req_ProductId request)])"
  using assms
  by (auto simp: RecordStockMovement_def Let_def GetByProductId_def stockChange_def
        inventoryLogRepository_Create_def UpdateQuantity_def issue_def
        split: if_splits option.splits sum.splits prod.splits)

lemma stockChange_Inr:
  assumes "stockChange changeType request previousStock = Inr (newStock, netChange)"
    and "\<not> req_Quantity request <=s 0"
    and "changeType \<in> {InventoryLogChangeTypeIN, InventoryLogChangeTypeOUT,
                         InventoryLogChangeTypeADJUST}"
  shows "newStock = previousStock + netChange"
    and "netChange = (if changeType = InventoryLogChangeTypeOUT then - req_Quantity request
                      else req_Quantity request)"
  using assms
  by (auto simp: stockChange_def Let_def signed.not_le InventoryLogChangeTypeIN_def
        InventoryLogChangeTypeOUT_def InventoryLogChangeTypeADJUST_def split: if_splits)

lemma CalculateNetChange_logEntry:
  assumes "req_ChangeType request \<in> {InventoryLogChangeTypeIN, InventoryLogChangeTypeOUT,
                         InventoryLogChangeTypeADJUST}"
  shows "CalculateNetChange (logEntry_of now request) =
           (if req_ChangeType request = InventoryLogChangeTypeOUT then - req_Quantity request
            else req_Quantity request)"
  using assms
  by (auto simp: CalculateNetChange_def logEntry_of_def InventoryLogChangeTypeIN_def
        InventoryLogChangeTypeOUT_def InventoryLogChangeTypeADJUST_def)

lemma RecordStockMovement_accepted:
  assumes q: "\<not> req_Quantity request <=s 0"
    and ct: "req_ChangeType request \<in> {InventoryLogChangeTypeIN, InventoryLogChangeTypeOUT,
                                 InventoryLogChangeTypeADJUST}"
    and f: "find (\<lambda>i. inv_ProductId i = req_ProductId request) (Inventories db) = Some inventory"
    and sc: "stockChange (req_ChangeType request) request (inv_Quantity inventory) = Inr (newStock, netChange)"
    and r1: "\<not> rejects (SelectInventoryByProductId (req_ProductId request))"
    and r2: "\<not> rejects (InsertInventoryLog (logEntry_of now request))"
    and r3: "\<not> rejects (UpdateInventoryQuantity (req_ProductId request) newStock)"
  shows "fst (RecordStockMovement rejects now db request) =
           Inr \<lparr>Success = True,
             Message = ''Stock '' @ req_ChangeType request @ '' recorded successfully'',
             ProductId = req_ProductId request, PreviousStock = inv_Quantity inventory,
             NewStock = newStock, ChangeAmount = netChange\<rparr>"
  using assms
  by (auto simp: RecordStockMovement_def Let_def GetByProductId_def inventoryLogRepository_Create_def
        UpdateQuantity_def issue_def logEntry_of_def)

lemma RecordStockMovement_consistent:
  assumes ok: "RecordStockMovement rejects now db request = (Inr resp, db')"
    and inv: "ledger_consistent db"
  shows "ledger_consistent db'"
proof -
  from RecordStockMovement_Inr [OF ok] obtain inventory newStock netChange where
    q: "\<not> req_Quantity request <=s 0"
    and ct: "req_ChangeType request \<in> {InventoryLogChangeTypeIN, InventoryLogChangeTypeOUT,
                                 InventoryLogChangeTypeADJUST}"
    and f: "find (\<lambda>i. inv_ProductId i = req_ProductId request) (Inventories db) = Some inventory"
    and sc: "stockChange (req_ChangeType request) request (inv_Quantity inventory) = Inr (newStock, netChange)"
    and invs: "Inventories db' = map (\<lambda>i. if inv_ProductId i = req_ProductId request
                        then i\<lparr>inv_Quantity := newStock, inv_UpdatedAt := now\<rparr> else i)
                  (Inventories db)"
    and logs: "InventoryLogs db' = InventoryLogs db @ [logEntry_of now request]"
    by blast
  from find_Some_D [OF f] have mem: "inventory \<in> set (Inventories db)"
    and pid: "inv_ProductId inventory = req_ProductId request" by auto
  from inv mem pid have prev: "inv_Quantity inventory = ledger_sum (req_ProductId request) (InventoryLogs db)"
    by (auto simp: ledger_consistent_def)
  have net: "netChange = CalculateNetChange (logEntry_of now request)"
    using stockChange_Inr(2) [OF sc q ct] CalculateNetChange_logEntry [OF ct, of now] by simp
  have new: "newStock = ledger_sum (req_ProductId request) (InventoryLogs db')"
    using stockChange_Inr(1) [OF sc q ct] prev net
    by (simp add: logs ledger_sum_def logEntry_of_def)
  have other: "p \<noteq> req_ProductId request \<Longrightarrow>
        ledger_sum p (InventoryLogs db') = ledger_sum p (InventoryLogs db)" for p
    by (simp add: logs ledger_sum_def logEntry_of_def)
  show ?thesis
    unfolding ledger_consistent_def
  proof
    fix i assume "i \<in> set (Inventories db')"
    then obtain j where j: "j \<in> set (Inventories db)"
      and i: "i = (if inv_ProductId j = req_ProductId request
                        then j\<lparr>inv_Quantity := newStock, inv_UpdatedAt := now\<rparr> else j)"
      by (auto simp: invs)
    show "inv_Quantity i = ledger_sum (inv_ProductId i) (InventoryLogs db')"
    proof (cases "inv_ProductId j = req_ProductId request")
      case True
      then show ?thesis using i new by simp
    next
      case False
      then show ?thesis using i j inv other [of "inv_ProductId j"]
        by (simp add: ledger_consistent_def)
    qed
  qed
qed

lemma RecordStockMovements_consistent:
  "RecordStockMovements db calls = Some db' \<Longrightarrow> ledger_consistent db \<Longrightarrow> ledger_consistent db'"
proof (induction calls arbitrary: db)
  case Nil
  then show ?case by simp
next
  case (Cons c calls)
  obtain rejects now request where c: "c = (rejects, now, request)" by (cases c)
  from Cons.prems(1) obtain resp db1 where
    step: "RecordStockMovement rejects now db request = (Inr resp, db1)"
    and rest: "RecordStockMovements db1 calls = Some db'"
    by (auto simp: c split: prod.splits sum.splits)
  from RecordStockMovement_consistent [OF step Cons.prems(2)] Cons.IH [OF rest]
  show ?case by blast
qed

lemma two_movements_run:
  "map inv_Quantity (Inventories (the (RecordStockMovements (snapshot_db 0 20) two_movements))) = [30]"
  by code_simp

lemma two_movements_ok: "RecordStockMovements (snapshot_db 0 20) two_movements \<noteq> None"
  by code_simp

lemma sint_sub_no_wrap:
  fixes a b :: go_int
  assumes "sint a < sint b" and "- (2 ^ 63) \<le> sint a - sint b"
  shows "a + (- b) <s 0"
proof -
  have "sint (a - b) = signed_take_bit 63 (sint a - sint b)"
    by (simp add: sint_word_ariths)
  also have "\<dots> = sint a - sint b"
    using assms by (intro signed_take_bit_int_eq_self) auto
  finally show ?thesis using assms by (simp add: word_sless_alt)
qed

lemma update_failure_in_service:
  "RecordStockMovement rejects_quantity_update 7 (snapshot_db 100 20)
       (stock_movement ''IN'' 50 ''purchase'' False) =
     (Inl (XError DATABASE ''Failed to update inventory quantity''
            (Some (XError DATABASE ''Unable to update inventory quantity'' (Some ErrStorage)))),
      (snapshot_db 100 20)
        \<lparr>InventoryLogs := [logEntry_of 7 (stock_movement ''IN'' 50 ''purchase'' False)],
         statements := [SelectInventoryByProductId 1,
                        InsertInventoryLog (logEntry_of 7 (stock_movement ''IN'' 50 ''purchase'' False)),
                        UpdateInventoryQuantity 1 150]\<rparr>)"
  by (simp add: RecordStockMovement_def Let_def GetByProductId_def stockChange_def change_types
        inventoryLogRepository_Create_def UpdateQuantity_def issue_def rejects_quantity_update_def
        snapshot_db_def snapshot_row_def stock_movement_def logEntry_of_def word_sless_alt word_sle_eq)

section \<open>The ledger invariant\<close>

text \<open>
  C1. Starting from snapshots with quantity 0 and an empty ledger, after any sequence of
  calls of \<open>RecordStockMovement\<close> that all returned a response, the quantity of
  every snapshot equals the sum of \<open>CalculateNetChange\<close> over the ledger rows of its
  product. Sum and quantity are Go \<open>int\<close> values.
\<close>

theorem snapshot_equals_ledger_sum:
  assumes "\<forall>i \<in> set (Inventories db). inv_Quantity i = 0"
    and "InventoryLogs db = []"
    and "RecordStockMovements db calls = Some db'"
  shows "\<forall>i \<in> set (Inventories db').
           inv_Quantity i = ledger_sum (inv_ProductId i) (InventoryLogs db')"
proof -
  have "ledger_consistent db"
    using assms(1,2) by (simp add: ledger_consistent_def ledger_sum_def)
  from RecordStockMovements_consistent [OF assms(3) this]
  show ?thesis by (simp add: ledger_consistent_def)
qed

theorem snapshot_equals_ledger_sum_witness:
  "map inv_Quantity (Inventories (snapshot_db 0 20)) = [0] \<and>
   InventoryLogs (snapshot_db 0 20) = [] \<and>
   (\<exists>db'. RecordStockMovements (snapshot_db 0 20) two_movements = Some db' \<and>
      map inv_Quantity (Inventories db') = [30] \<and>
      map (\<lambda>i. ledger_sum (inv_ProductId i) (InventoryLogs db')) (Inventories db') = [30])"
proof -
  have a: "\<forall>i \<in> set (Inventories (snapshot_db 0 20)). inv_Quantity i = 0"
    by (simp add: snapshot_db_def snapshot_row_def)
  have a': "map inv_Quantity (Inventories (snapshot_db 0 20)) = [0]"
    by (simp add: snapshot_db_def snapshot_row_def)
  have b: "InventoryLogs (snapshot_db 0 20) = []"
    by (simp add: snapshot_db_def)
  obtain db' where c: "RecordStockMovements (snapshot_db 0 20) two_movements = Some db'"
    using two_movements_ok by blast
  have d: "map inv_Quantity (Inventories db') = [30]"
    using two_movements_run c by simp
  have "map (\<lambda>i. ledger_sum (inv_ProductId i) (InventoryLogs db')) (Inventories db') =
        map inv_Quantity (Inventories db')"
    using snapshot_equals_ledger_sum [OF a b c] by simp
  with d have e: "map (\<lambda>i. ledger_sum (inv_ProductId i) (InventoryLogs db')) (Inventories db') = [30]"
    by simp
  show ?thesis
    by (intro conjI exI [of _ db'] a' b c d e)
qed

section \<open>Atomicity of the write step\<close>

text \<open>
  C2. A call that fails with an INVALID_REQUEST error, that is at validation, at the
  snapshot lookup or at the stock check, leaves ledger and snapshot rows as they were and
  has issued at most the snapshot read. Run in the transaction of its request, a call
  that returns an error leaves the stored state exactly as it was, whichever statement
  failed, and a call that returns a response has stored both the ledger row and the new
  quantity: a failed quantity update after a successful ledger append does not leave the
  ledger row behind.
\<close>

theorem RecordStockMovement_atomic:
  "(RecordStockMovement rejects now db request = (Inl e, db') \<and>
    error_type e = Some INVALID_REQUEST \<longrightarrow>
      Inventories db' = Inventories db \<and> InventoryLogs db' = InventoryLogs db \<and>
      (statements db' = statements db \<or>
       statements db' = statements db @ [SelectInventoryByProductId (req_ProductId request)]))
   \<and>
   (case fst (RecordStockMovement_in_transaction rejects now db request) of
      Inl err \<Rightarrow> snd (RecordStockMovement_in_transaction rejects now db request) = db
    | Inr response \<Rightarrow>
        InventoryLogs (snd (RecordStockMovement_in_transaction rejects now db request)) =
          InventoryLogs db @ [logEntry_of now request] \<and>
        Inventories (snd (RecordStockMovement_in_transaction rejects now db request)) =
          map (\<lambda>i. if inv_ProductId i = req_ProductId request
                    then i\<lparr>inv_Quantity := NewStock response, inv_UpdatedAt := now\<rparr> else i)
              (Inventories db))"
proof (intro conjI impI)
  assume a: "RecordStockMovement rejects now db request = (Inl e, db') \<and>
             error_type e = Some INVALID_REQUEST"
  then show "Inventories db' = Inventories db"
    using RecordStockMovement_Inl(1) by blast
  from a show "InventoryLogs db' = InventoryLogs db"
    using RecordStockMovement_Inl(2) by blast
  from a show "statements db' = statements db \<or>
       statements db' = statements db @ [SelectInventoryByProductId (req_ProductId request)]"
    using RecordStockMovement_Inl(2) by blast
next
  obtain res view' where r: "RecordStockMovement rejects now db request = (res, view')"
    by (cases "RecordStockMovement rejects now db request")
  show "case fst (RecordStockMovement_in_transaction rejects now db request) of
      Inl err \<Rightarrow> snd (RecordStockMovement_in_transaction rejects now db request) = db
    | Inr response \<Rightarrow>
        InventoryLogs (snd (RecordStockMovement_in_transaction rejects now db request)) =
          InventoryLogs db @ [logEntry_of now request] \<and>
        Inventories (snd (RecordStockMovement_in_transaction rejects now db request)) =
          map (\<lambda>i. if inv_ProductId i = req_ProductId request
                    then i\<lparr>inv_Quantity := NewStock response, inv_UpdatedAt := now\<rparr> else i)
              (Inventories db)"
  proof (cases res)
    case (Inl err)
    with r show ?thesis
      by (simp add: RecordStockMovement_in_transaction_def WithTransaction_def
            createTransaction_def Rollback_def Let_def)
  next
    case (Inr response)
    with r have ok: "RecordStockMovement rejects now db request = (Inr response, view')" by simp
    from RecordStockMovement_Inr [OF ok] have
      "Inventories view' = map (\<lambda>i. if inv_ProductId i = req_ProductId request
                    then i\<lparr>inv_Quantity := NewStock response, inv_UpdatedAt := now\<rparr> else i)
              (Inventories db)"
      and "InventoryLogs view' = InventoryLogs db @ [logEntry_of now request]"
      by auto
    with ok show ?thesis
      by (simp add: RecordStockMovement_in_transaction_def WithTransaction_def
            createTransaction_def Commit_def Let_def)
  qed
qed

theorem RecordStockMovement_atomic_witness:
  "(RecordStockMovement accepts_all 7 (snapshot_db 10 20) (stock_movement ''OUT'' 50 ''sale'' False) =
      (Inl (XError INVALID_REQUEST ''Insufficient stock. Available: 10, Requested: 50'' None),
       issue (SelectInventoryByProductId 1) (snapshot_db 10 20)) \<and>
    error_type (XError INVALID_REQUEST ''Insufficient stock. Available: 10, Requested: 50'' None)
      = Some INVALID_REQUEST \<and>
    Inventories (issue (SelectInventoryByProductId 1) (snapshot_db 10 20))
      = Inventories (snapshot_db 10 20) \<and>
    InventoryLogs (issue (SelectInventoryByProductId 1) (snapshot_db 10 20))
      = InventoryLogs (snapshot_db 10 20)) \<and>
   fst (RecordStockMovement_in_transaction rejects_quantity_update 7 (snapshot_db 100 20)
          (stock_movement ''IN'' 50 ''purchase'' False)) =
     Inl (XError DATABASE ''Failed to update inventory quantity''
            (Some (XError DATABASE ''Unable to update inventory quantity'' (Some ErrStorage)))) \<and>
   snd (RecordStockMovement_in_transaction rejects_quantity_update 7 (snapshot_db 100 20)
          (stock_movement ''IN'' 50 ''purchase'' False)) = snapshot_db 100 20"
proof -
  have b: "RecordStockMovement accepts_all 7 (snapshot_db 10 20) (stock_movement ''OUT'' 50 ''sale'' False) =
      (Inl (XError INVALID_REQUEST ''Insufficient stock. Available: 10, Requested: 50'' None),
       issue (SelectInventoryByProductId 1) (snapshot_db 10 20))"
    by code_simp
  have t: "error_type (XError INVALID_REQUEST ''Insufficient stock. Available: 10, Requested: 50'' None)
      = Some INVALID_REQUEST"
    by simp
  have f: "fst (RecordStockMovement_in_transaction rejects_quantity_update 7 (snapshot_db 100 20)
          (stock_movement ''IN'' 50 ''purchase'' False)) =
     Inl (XError DATABASE ''Failed to update inventory quantity''
            (Some (XError DATABASE ''Unable to update inventory quantity'' (Some ErrStorage))))"
    by (simp add: RecordStockMovement_in_transaction_def WithTransaction_def
          createTransaction_def Let_def update_failure_in_service)
  show ?thesis
    using b t f
      RecordStockMovement_atomic
        [of accepts_all 7 "snapshot_db 10 20" "stock_movement ''OUT'' 50 ''sale'' False"
            "XError INVALID_REQUEST ''Insufficient stock. Available: 10, Requested: 50'' None"
            "issue (SelectInventoryByProductId 1) (snapshot_db 10 20)"]
      RecordStockMovement_atomic
        [of rejects_quantity_update 7 "snapshot_db 100 20"
            "stock_movement ''IN'' 50 ''purchase'' False"]
    by simp
qed

section \<open>Insufficient stock\<close>

text \<open>
  As long as the subtraction does not wrap around, an OUT movement larger than the
  current quantity and without admin override is refused with the message naming both
  numbers, after the snapshot read and before any write.
\<close>

lemma RecordStockMovement_insufficient_stock:
  assumes "req_ChangeType request = InventoryLogChangeTypeOUT"
    and "\<not> req_AdminOverride request"
    and "0 <s req_Quantity request"
    and "find (\<lambda>i. inv_ProductId i = req_ProductId request) (Inventories db) = Some inventory"
    and "inv_Quantity inventory <s req_Quantity request"
    and "- (2 ^ 63) \<le> sint (inv_Quantity inventory) - sint (req_Quantity request)"
    and "\<not> rejects (SelectInventoryByProductId (req_ProductId request))"
  shows "RecordStockMovement rejects now db request =
           (Inl (XError INVALID_REQUEST
                  (''Insufficient stock. Available: '' @ Sprintf_d (inv_Quantity inventory)
                     @ '', Requested: '' @ Sprintf_d (req_Quantity request)) None),
            issue (SelectInventoryByProductId (req_ProductId request)) db)"
proof -
  have neg: "inv_Quantity inventory + (- req_Quantity request) <s 0"
    using assms(5,6) by (intro sint_sub_no_wrap) (simp_all add: word_sless_alt)
  have q: "\<not> req_Quantity request <=s 0"
    using assms(3) by (simp add: signed.not_le)
  show ?thesis
    using assms(1,2,4,7) q neg
    by (simp add: RecordStockMovement_def Let_def GetByProductId_def stockChange_def change_types)
qed

text \<open>
  C3. With the snapshot at -40 (reached by an overridden OUT), an OUT movement of
  9223372036854775807 without admin override is larger than the current quantity, yet
  the difference wraps around to 9223372036854775769, the guard \<open>newStock < 0\<close> does
  not fire, and the call goes on to the write step instead of failing with
  INVALID_REQUEST: a storage layer that accepts every statement gets the ledger row and
  the wrapped quantity, and one with 32-bit columns rejects the ledger row, which the call
  reports as a DATABASE error.
\<close>

theorem RecordStockMovement_out_wraps:
  "req_ChangeType (stock_movement ''OUT'' 9223372036854775807 ''sale'' False) = InventoryLogChangeTypeOUT \<and>
   \<not> req_AdminOverride (stock_movement ''OUT'' 9223372036854775807 ''sale'' False) \<and>
   map inv_Quantity (Inventories (snapshot_db (- 40) 20)) = [- 40] \<and>
   (- 40 :: go_int) <s req_Quantity (stock_movement ''OUT'' 9223372036854775807 ''sale'' False) \<and>
   fst (RecordStockMovement accepts_all 7 (snapshot_db (- 40) 20)
          (stock_movement ''OUT'' 9223372036854775807 ''sale'' False)) =
     Inr \<lparr>Success = True, Message = ''Stock OUT recorded successfully'', ProductId = 1,
           PreviousStock = - 40, NewStock = 9223372036854775769,
           ChangeAmount = - 9223372036854775807\<rparr> \<and>
   map inv_Quantity (Inventories (snd (RecordStockMovement accepts_all 7 (snapshot_db (- 40) 20)
          (stock_movement ''OUT'' 9223372036854775807 ''sale'' False)))) = [9223372036854775769] \<and>
   InventoryLogs (snd (RecordStockMovement accepts_all 7 (snapshot_db (- 40) 20)
          (stock_movement ''OUT'' 9223372036854775807 ''sale'' False))) =
     [logEntry_of 7 (stock_movement ''OUT'' 9223372036854775807 ''sale'' False)] \<and>
   fst (RecordStockMovement int4_columns 7 (snapshot_db (- 40) 20)
          (stock_movement ''OUT'' 9223372036854775807 ''sale'' False)) =
     Inl (XError DATABASE ''Failed to create inventory log''
            (Some (XError DATABASE ''Unable to create inventory log'' (Some ErrStorage))))"
  by (simp add: RecordStockMovement_def Let_def GetByProductId_def stockChange_def change_types
        inventoryLogRepository_Create_def UpdateQuantity_def issue_def accepts_all_def
        int4_columns_def fits_int4_def
        snapshot_db_def snapshot_row_def stock_movement_def logEntry_of_def word_sless_alt word_sle_eq)

section \<open>Adjustments\<close>

text \<open>
  C4. An ADJUST movement submitted with the negative quantity -5 is not applied as a
  negative adjustment: the first validation check refuses it with INVALID_REQUEST and
  nothing changes. The ADJUST branch of the switch, taken alone on that request, would
  add 5 to the stock of 100 rather than remove 5.
\<close>

theorem RecordStockMovement_adjust_negative_refused:
  "RecordStockMovement accepts_all 7 (snapshot_db 100 20) (stock_movement ''ADJUST'' (- 5) ''correction'' False)
     = (Inl (XError INVALID_REQUEST ''Quantity must be greater than 0'' None), snapshot_db 100 20) \<and>
   stockChange InventoryLogChangeTypeADJUST (stock_movement ''ADJUST'' (- 5) ''correction'' False) 100
     = Inr (105, 5)"
  by (simp add: RecordStockMovement_def stockChange_def change_types stock_movement_def
        word_sless_alt word_sle_eq)

section \<open>The response\<close>

text \<open>
  C5. A returned response carries the quantity of the snapshot read before the movement
  as previous stock, the previous stock plus the change amount as new stock, and the
  quantity (IN) or its negation (OUT) as change amount. When the storage layer accepts
  every statement, an OUT movement with admin override on an existing snapshot returns a
  response whatever the sign of the new stock.
\<close>

theorem RecordStockMovement_response:
  "(RecordStockMovement rejects now db request = (Inr resp, db') \<longrightarrow>
      (\<exists>inventory. find (\<lambda>i. inv_ProductId i = req_ProductId request) (Inventories db)
                      = Some inventory \<and>
                    PreviousStock resp = inv_Quantity inventory) \<and>
      NewStock resp = PreviousStock resp + ChangeAmount resp \<and>
      (req_ChangeType request = InventoryLogChangeTypeIN \<longrightarrow>
         ChangeAmount resp = req_Quantity request) \<and>
      (req_ChangeType request = InventoryLogChangeTypeOUT \<longrightarrow>
         ChangeAmount resp = - req_Quantity request))
   \<and>
   (req_ChangeType request = InventoryLogChangeTypeOUT \<and> req_AdminOverride request \<and>
    0 <s req_Quantity request \<and>
    find (\<lambda>i. inv_ProductId i = req_ProductId request) (Inventories db) = Some inventory \<and>
    (\<forall>q. \<not> rejects q) \<longrightarrow>
      fst (RecordStockMovement rejects now db request) =
        Inr \<lparr>Success = True,
             Message = ''Stock '' @ req_ChangeType request @ '' recorded successfully'',
             ProductId = req_ProductId request, PreviousStock = inv_Quantity inventory,
             NewStock = inv_Quantity inventory - req_Quantity request,
             ChangeAmount = - req_Quantity request\<rparr>)"
proof (intro conjI impI)
  assume ok: "RecordStockMovement rejects now db request = (Inr resp, db')"
  from RecordStockMovement_Inr [OF ok] obtain inventory newStock netChange where
    q: "\<not> req_Quantity request <=s 0"
    and ct: "req_ChangeType request \<in> {InventoryLogChangeTypeIN, InventoryLogChangeTypeOUT,
                                 InventoryLogChangeTypeADJUST}"
    and f: "find (\<lambda>i. inv_ProductId i = req_ProductId request) (Inventories db) = Some inventory"
    and sc: "stockChange (req_ChangeType request) request (inv_Quantity inventory) = Inr (newStock, netChange)"
    and resp: "resp = \<lparr>Success = True,
             Message = ''Stock '' @ req_ChangeType request @ '' recorded successfully'',
             ProductId = req_ProductId request, PreviousStock = inv_Quantity inventory,
             NewStock = newStock, ChangeAmount = netChange\<rparr>"
    by blast
  note sc1 = stockChange_Inr(1) [OF sc q ct] and sc2 = stockChange_Inr(2) [OF sc q ct]
  show "\<exists>inventory. find (\<lambda>i. inv_ProductId i = req_ProductId request) (Inventories db)
                      = Some inventory \<and> PreviousStock resp = inv_Quantity inventory"
    using f resp by simp
  show "NewStock resp = PreviousStock resp + ChangeAmount resp"
    using sc1 resp by simp
  show "ChangeAmount resp = req_Quantity request"
    if "req_ChangeType request = InventoryLogChangeTypeIN"
    using that sc2 resp
    by (simp add: InventoryLogChangeTypeIN_def InventoryLogChangeTypeOUT_def)
  show "ChangeAmount resp = - req_Quantity request"
    if "req_ChangeType request = InventoryLogChangeTypeOUT"
    using that sc2 resp by simp
next
  assume a: "req_ChangeType request = InventoryLogChangeTypeOUT \<and> req_AdminOverride request \<and>
    0 <s req_Quantity request \<and>
    find (\<lambda>i. inv_ProductId i = req_ProductId request) (Inventories db) = Some inventory \<and>
    (\<forall>q. \<not> rejects q)"
  then have sc: "stockChange (req_ChangeType request) request (inv_Quantity inventory)
                  = Inr (inv_Quantity inventory - req_Quantity request, - req_Quantity request)"
    by (simp add: stockChange_def Let_def InventoryLogChangeTypeIN_def InventoryLogChangeTypeOUT_def)
  from a have q: "\<not> req_Quantity request <=s 0" by (simp add: signed.not_le)
  show "fst (RecordStockMovement rejects now db request) =
        Inr \<lparr>Success = True,
             Message = ''Stock '' @ req_ChangeType request @ '' recorded successfully'',
             ProductId = req_ProductId request, PreviousStock = inv_Quantity inventory,
             NewStock = inv_Quantity inventory - req_Quantity request,
             ChangeAmount = - req_Quantity request\<rparr>"
    using RecordStockMovement_accepted [OF q _ _ sc] a by simp
qed

theorem RecordStockMovement_response_witness:
  "RecordStockMovement accepts_all 7 (snapshot_db 100 20) (stock_movement ''IN'' 50 ''purchase'' False) =
     (Inr \<lparr>Success = True, Message = ''Stock IN recorded successfully'', ProductId = 1,
            PreviousStock = 100, NewStock = 150, ChangeAmount = 50\<rparr>,
      snd (RecordStockMovement accepts_all 7 (snapshot_db 100 20)
             (stock_movement ''IN'' 50 ''purchase'' False))) \<and>
   (req_ChangeType (stock_movement ''OUT'' 50 ''sale'' True) = InventoryLogChangeTypeOUT \<and>
    req_AdminOverride (stock_movement ''OUT'' 50 ''sale'' True) \<and>
    0 <s req_Quantity (stock_movement ''OUT'' 50 ''sale'' True) \<and>
    find (\<lambda>i. inv_ProductId i = req_ProductId (stock_movement ''OUT'' 50 ''sale'' True))
         (Inventories (snapshot_db 10 20)) = Some (snapshot_row 10 20) \<and>
    (\<forall>q. \<not> accepts_all q)) \<and>
   fst (RecordStockMovement accepts_all 7 (snapshot_db 10 20) (stock_movement ''OUT'' 50 ''sale'' True)) =
     Inr \<lparr>Success = True, Message = ''Stock OUT recorded successfully'', ProductId = 1,
           PreviousStock = 10, NewStock = - 40, ChangeAmount = - 50\<rparr> \<and>
   (- 40 :: go_int) <s 0"
proof -
  have a: "RecordStockMovement accepts_all 7 (snapshot_db 100 20)
             (stock_movement ''IN'' 50 ''purchase'' False) =
     (Inr \<lparr>Success = True, Message = ''Stock IN recorded successfully'', ProductId = 1,
            PreviousStock = 100, NewStock = 150, ChangeAmount = 50\<rparr>,
      snd (RecordStockMovement accepts_all 7 (snapshot_db 100 20)
             (stock_movement ''IN'' 50 ''purchase'' False)))"
    by (simp add: prod_eq_iff RecordStockMovement_def Let_def GetByProductId_def stockChange_def
          change_types inventoryLogRepository_Create_def UpdateQuantity_def issue_def
          accepts_all_def snapshot_db_def snapshot_row_def stock_movement_def word_sle_eq)
  have c: "req_ChangeType (stock_movement ''OUT'' 50 ''sale'' True) = InventoryLogChangeTypeOUT \<and>
    req_AdminOverride (stock_movement ''OUT'' 50 ''sale'' True) \<and>
    0 <s req_Quantity (stock_movement ''OUT'' 50 ''sale'' True) \<and>
    find (\<lambda>i. inv_ProductId i = req_ProductId (stock_movement ''OUT'' 50 ''sale'' True))
         (Inventories (snapshot_db 10 20)) = Some (snapshot_row 10 20) \<and>
    (\<forall>q. \<not> accepts_all q)"
    by (simp add: stock_movement_def change_types snapshot_db_def snapshot_row_def accepts_all_def
          word_sless_alt)
  have n: "(- 40 :: go_int) <s 0"
    by (simp add: word_sless_alt)
  show ?thesis
    using a c n
      RecordStockMovement_response
        [of accepts_all 7 "snapshot_db 10 20" "stock_movement ''OUT'' 50 ''sale'' True" _ _
            "snapshot_row 10 20"]
    by (simp add: stock_movement_def snapshot_row_def)
qed

section \<open>A product without a snapshot\<close>




section \<open>The reason of a movement\<close>

text \<open>
  C7, as stated, at concrete calls: the service accepts a request whose reason is empty
  and writes the ledger row with the empty reason; and a request with an empty reason, a
  negative quantity and an unknown change type is refused by the handler at binding, as a
  malformed request, not by the quantity check that the stated order puts first.
\<close>

theorem RecordStockMovement_accepts_empty_reason:
  "req_Reason (stock_movement ''IN'' 50 [] False) = [] \<and>
   fst (RecordStockMovement accepts_all 7 (snapshot_db 100 20) (stock_movement ''IN'' 50 [] False)) =
     Inr \<lparr>Success = True, Message = ''Stock IN recorded successfully'', ProductId = 1,
           PreviousStock = 100, NewStock = 150, ChangeAmount = 50\<rparr> \<and>
   InventoryLogs (snd (RecordStockMovement accepts_all 7 (snapshot_db 100 20)
                         (stock_movement ''IN'' 50 [] False))) =
     [logEntry_of 7 (stock_movement ''IN'' 50 [] False)] \<and>
   fst (InventoryHandler_RecordStockMovement ''Malformed request'' accepts_all 7 (snapshot_db 100 20)
          (stock_movement ''BOGUS'' (- 5) [] False)) =
     (400, Inl (XError INVALID_REQUEST ''Malformed request'' (Some ErrValidation)))"
  by (simp add: RecordStockMovement_def Let_def GetByProductId_def stockChange_def change_types
        inventoryLogRepository_Create_def UpdateQuantity_def issue_def accepts_all_def
        snapshot_db_def snapshot_row_def stock_movement_def logEntry_of_def word_sless_alt word_sle_eq
        InventoryHandler_RecordStockMovement_def Bind_def)

text \<open>
  C7, amended. A movement request whose reason is empty is refused by the handler when
  the request is bound, with an INVALID_REQUEST error and status 400, whatever its other
  fields are, before the service is called and with no storage access. The check is
  part of request binding and so comes before the quantity and change-type checks of the
  service, which itself does not look at the reason.
\<close>

theorem InventoryHandler_empty_reason_refused:
  assumes "req_Reason movement = []"
  shows "InventoryHandler_RecordStockMovement malformed rejects now db movement =
           ((400, Inl (XError INVALID_REQUEST malformed (Some ErrValidation))), db)"
  using assms by (simp add: InventoryHandler_RecordStockMovement_def Bind_def)

theorem InventoryHandler_empty_reason_refused_witness:
  "req_Reason (stock_movement ''IN'' 50 [] False) = [] \<and>
   InventoryHandler_RecordStockMovement ''Malformed request'' accepts_all 7 (snapshot_db 100 20)
       (stock_movement ''IN'' 50 [] False) =
     ((400, Inl (XError INVALID_REQUEST ''Malformed request'' (Some ErrValidation))),
      snapshot_db 100 20)"
proof -
  have h: "req_Reason (stock_movement ''IN'' 50 [] False) = []"
    by (simp add: stock_movement_def)
  show ?thesis
    using h InventoryHandler_empty_reason_refused
              [OF h, of "''Malformed request''" accepts_all 7 "snapshot_db 100 20"]
    by simp
qed

section \<open>Validation before storage\<close>

text \<open>
  C8. A movement whose quantity is zero or negative, and a movement whose change type is
  none of IN, OUT, ADJUST, is refused with an INVALID_REQUEST error, and the storage
  state, statement record included, is exactly what it was: no snapshot read, no ledger
  or snapshot write.
\<close>

theorem RecordStockMovement_invalid_no_storage_access:
  assumes "req_Quantity request <=s 0 \<or>
           req_ChangeType request \<notin> {InventoryLogChangeTypeIN, InventoryLogChangeTypeOUT,
                                        InventoryLogChangeTypeADJUST}"
  shows "\<exists>msg. RecordStockMovement rejects now db request =
                  (Inl (XError INVALID_REQUEST msg None), db)"
  using assms by (auto simp: RecordStockMovement_def Let_def)

theorem RecordStockMovement_invalid_no_storage_access_witness:
  "(req_Quantity (stock_movement ''IN'' 0 ''purchase'' False) <=s 0 \<and>
    (\<exists>msg. RecordStockMovement accepts_all 7 (snapshot_db 100 20) (stock_movement ''IN'' 0 ''purchase'' False)
            = (Inl (XError INVALID_REQUEST msg None), snapshot_db 100 20))) \<and>
   (req_ChangeType (stock_movement ''BOGUS'' 5 ''purchase'' False)
      \<notin> {InventoryLogChangeTypeIN, InventoryLogChangeTypeOUT, InventoryLogChangeTypeADJUST} \<and>
    (\<exists>msg. RecordStockMovement accepts_all 7 (snapshot_db 100 20) (stock_movement ''BOGUS'' 5 ''purchase'' False)
            = (Inl (XError INVALID_REQUEST msg None), snapshot_db 100 20)))"
proof -
  have q: "req_Quantity (stock_movement ''IN'' 0 ''purchase'' False) <=s 0"
    by (simp add: stock_movement_def)
  have t: "req_ChangeType (stock_movement ''BOGUS'' 5 ''purchase'' False)
             \<notin> {InventoryLogChangeTypeIN, InventoryLogChangeTypeOUT, InventoryLogChangeTypeADJUST}"
    by (simp add: stock_movement_def InventoryLogChangeTypeIN_def InventoryLogChangeTypeOUT_def
          InventoryLogChangeTypeADJUST_def)
  show ?thesis
    using q t
      RecordStockMovement_invalid_no_storage_access
        [of "stock_movement ''IN'' 0 ''purchase'' False" accepts_all 7 "snapshot_db 100 20"]
      RecordStockMovement_invalid_no_storage_access
        [of "stock_movement ''BOGUS'' 5 ''purchase'' False" accepts_all 7 "snapshot_db 100 20"]
    by blast
qed

section \<open>Updating the threshold\<close>




section \<open>Frame of a movement\<close>

text \<open>
  C10. A call that returns a response leaves the snapshot table with the same rows in
  the same order, and on every row the low-stock threshold, the product reference, the
  active flag, the channel reference and the primary key are what they were: only
  quantity and update timestamp can differ.
\<close>

theorem RecordStockMovement_frame:
  assumes "RecordStockMovement rejects now db request = (Inr resp, db')"
  shows "length (Inventories db') = length (Inventories db) \<and>
         (\<forall>k < length (Inventories db).
            inv_LowStockThreshold (Inventories db' ! k) = inv_LowStockThreshold (Inventories db ! k) \<and>
            inv_ProductId (Inventories db' ! k) = inv_ProductId (Inventories db ! k) \<and>
            inv_IsActive (Inventories db' ! k) = inv_IsActive (Inventories db ! k) \<and>
            inv_ChannelId (Inventories db' ! k) = inv_ChannelId (Inventories db ! k) \<and>
            inv_ID (Inventories db' ! k) = inv_ID (Inventories db ! k))"
proof -
  from RecordStockMovement_Inr [OF assms] obtain newStock where
    "Inventories db' = map (\<lambda>i. if inv_ProductId i = req_ProductId request
                        then i\<lparr>inv_Quantity := newStock, inv_UpdatedAt := now\<rparr> else i)
                  (Inventories db)"
    by blast
  then show ?thesis by simp
qed

theorem RecordStockMovement_frame_witness:
  "RecordStockMovement accepts_all 7 (snapshot_db 100 20) (stock_movement ''IN'' 50 ''purchase'' False) =
     (Inr \<lparr>Success = True, Message = ''Stock IN recorded successfully'', ProductId = 1,
            PreviousStock = 100, NewStock = 150, ChangeAmount = 50\<rparr>,
      snd (RecordStockMovement accepts_all 7 (snapshot_db 100 20)
             (stock_movement ''IN'' 50 ''purchase'' False))) \<and>
   map inv_LowStockThreshold
     (Inventories (snd (RecordStockMovement accepts_all 7 (snapshot_db 100 20)
                          (stock_movement ''IN'' 50 ''purchase'' False)))) = [20] \<and>
   map inv_Quantity
     (Inventories (snd (RecordStockMovement accepts_all 7 (snapshot_db 100 20)
                          (stock_movement ''IN'' 50 ''purchase'' False)))) = [150]"
proof -
  have a: "RecordStockMovement accepts_all 7 (snapshot_db 100 20)
             (stock_movement ''IN'' 50 ''purchase'' False) =
     (Inr \<lparr>Success = True, Message = ''Stock IN recorded successfully'', ProductId = 1,
            PreviousStock = 100, NewStock = 150, ChangeAmount = 50\<rparr>,
      snd (RecordStockMovement accepts_all 7 (snapshot_db 100 20)
             (stock_movement ''IN'' 50 ''purchase'' False)))"
    by (simp add: prod_eq_iff RecordStockMovement_def Let_def GetByProductId_def stockChange_def
          change_types inventoryLogRepository_Create_def UpdateQuantity_def issue_def
          accepts_all_def snapshot_db_def snapshot_row_def stock_movement_def word_sle_eq)
  have q: "map inv_Quantity
     (Inventories (snd (RecordStockMovement accepts_all 7 (snapshot_db 100 20)
                          (stock_movement ''IN'' 50 ''purchase'' False)))) = [150]"
    by (simp add: RecordStockMovement_def Let_def GetByProductId_def stockChange_def
          change_types inventoryLogRepository_Create_def UpdateQuantity_def issue_def
          accepts_all_def snapshot_db_def snapshot_row_def stock_movement_def word_sle_eq)
  have l: "length (Inventories (snapshot_db 100 20)) = 1"
    and t: "inv_LowStockThreshold (Inventories (snapshot_db 100 20) ! 0) = 20"
    by (simp_all add: snapshot_db_def snapshot_row_def)
  from RecordStockMovement_frame [OF a] l t
  have "length (Inventories (snd (RecordStockMovement accepts_all 7 (snapshot_db 100 20)
                          (stock_movement ''IN'' 50 ''purchase'' False)))) = 1"
    and "inv_LowStockThreshold
           (Inventories (snd (RecordStockMovement accepts_all 7 (snapshot_db 100 20)
                          (stock_movement ''IN'' 50 ''purchase'' False))) ! 0) = 20"
    by auto
  then have "map inv_LowStockThreshold
     (Inventories (snd (RecordStockMovement accepts_all 7 (snapshot_db 100 20)
                          (stock_movement ''IN'' 50 ''purchase'' False)))) = [20]"
    by (cases "Inventories (snd (RecordStockMovement accepts_all 7 (snapshot_db 100 20)
                          (stock_movement ''IN'' 50 ''purchase'' False)))") auto
  with a q show ?thesis by blast
qed

end
